theory Spec2Isabelle
  imports Main
begin

section \<open>The stored documents\<close>

text \<open>
  The bot keeps five MongoDB collections. A document of \<open>users\<close> is created by
  \<open>start\<close> with the keys \<open>user_id\<close>, \<open>name\<close>, \<open>bet\<close>, \<open>status\<close> and
  \<open>payment_attempts\<close>. The module also inserts one empty document \<open>{}\<close> into a
  collection that did not exist yet; that placeholder has no \<open>user_id\<close>, so
  \<open>user_id\<close> is optional here (\<open>None\<close>: the key is absent). No query of the module
  by \<open>user_id\<close> selects the placeholder, and the queries on \<open>bet\<close> and \<open>status\<close>
  treat an absent key like a null one, so its other fields are given the values
  \<open>start\<close> would write.

  \<open>bet\<close> and \<open>status\<close> hold Python strings or \<open>None\<close>.
\<close>

record user =
  user_id :: "int option"
  name :: string
  bet :: "string option"
  status :: "string option"
  payment_attempts :: int

record settings =
  next_betting_time :: "string option"
  betting_open :: bool
  total_slots :: int
  available_slots :: int
  result_announcement_time :: "string option"

record results =
  heads :: int
  tails :: int

text \<open>
  The database: \<open>users\<close> in insertion order, the \<open>user_id\<close> of each document of
  \<open>pending_confirmations\<close> (\<open>None\<close> for the placeholder), and the singleton documents
  of \<open>results\<close>, \<open>winners\<close> and \<open>settings\<close>.
\<close>

record db =
  users_collection :: "user list"
  pending_confirmations_collection :: "int option list"
  results_collection :: results
  winners_collection :: "int list"
  settings_collection :: settings

text \<open>What the module start-up leaves in an empty database.\<close>

definition placeholder :: user where
  "placeholder = \<lparr>user_id = None, name = [], bet = None, status = None, payment_attempts = 0\<rparr>"

definition init_db :: db where
  "init_db =
     \<lparr>users_collection = [placeholder],
      pending_confirmations_collection = [None],
      results_collection = \<lparr>heads = 0, tails = 0\<rparr>,
      winners_collection = [],
      settings_collection =
        \<lparr>next_betting_time = None, betting_open = False, total_slots = 30,
         available_slots = 30, result_announcement_time = None\<rparr>\<rparr>"

section \<open>Collection primitives\<close>

text \<open>\<open>find_one({"user_id": uid})\<close>: the first document whose \<open>user_id\<close> is \<open>uid\<close>.\<close>

fun find_one :: "user list \<Rightarrow> int \<Rightarrow> user option" where
  "find_one [] uid = None"
| "find_one (u # us) uid = (if user_id u = Some uid then Some u else find_one us uid)"

text \<open>\<open>update_one({"user_id": uid}, upd)\<close>: the first matching document is updated.\<close>

fun update_one :: "int \<Rightarrow> (user \<Rightarrow> user) \<Rightarrow> user list \<Rightarrow> user list" where
  "update_one uid f [] = []"
| "update_one uid f (u # us) =
     (if user_id u = Some uid then f u # us else u # update_one uid f us)"

text \<open>\<open>update_many(query, upd)\<close>: every matching document is updated.\<close>

definition update_many :: "(user \<Rightarrow> bool) \<Rightarrow> (user \<Rightarrow> user) \<Rightarrow> user list \<Rightarrow> user list" where
  "update_many q f us = map (\<lambda>u. if q u then f u else u) us"

text \<open>\<open>delete_one({"user_id": uid})\<close> on \<open>pending_confirmations\<close>.\<close>

definition delete_one :: "int \<Rightarrow> int option list \<Rightarrow> int option list" where
  "delete_one uid ps = remove1 (Some uid) ps"

definition set_users :: "(user list \<Rightarrow> user list) \<Rightarrow> db \<Rightarrow> db" where
  "set_users f s = s\<lparr>users_collection := f (users_collection s)\<rparr>"

definition set_settings :: "(settings \<Rightarrow> settings) \<Rightarrow> db \<Rightarrow> db" where
  "set_settings f s = s\<lparr>settings_collection := f (settings_collection s)\<rparr>"

section \<open>Python helpers\<close>

text \<open>
  \<open>str.lower\<close> and \<open>" ".join(args)\<close>. A \<open>char\<close> is a byte, so \<open>lower\<close> is Python's
  on ASCII text: the letters \<open>A\<close> to \<open>Z\<close> move by 32, every other byte stays.
\<close>

definition lower_char :: "char \<Rightarrow> char" where
  "lower_char c =
     (if (65::nat) \<le> of_char c \<and> of_char c \<le> (90::nat)
      then char_of (of_char c + (32::nat)) else c)"

definition lower :: "string \<Rightarrow> string" where
  "lower s = map lower_char s"

fun join_args :: "string list \<Rightarrow> string" where
  "join_args [] = []"
| "join_args [a] = a"
| "join_args (a # b # bs) = a @ '' '' @ join_args (b # bs)"

text \<open>Truthiness of \<open>user_data.get("bet")\<close>: \<open>None\<close> and the empty string are false.\<close>

definition truthy :: "string option \<Rightarrow> bool" where
  "truthy b = (case b of None \<Rightarrow> False | Some x \<Rightarrow> x \<noteq> [])"

section \<open>Replies\<close>

text \<open>
  Each handler is a function from the database to the first reply it sends to its caller
  and the database it leaves, for a run in which that reply is delivered. Deliveries to
  other chats (notifications, forwards) write nothing to the database and are not part
  of the state; the notification loops catch their own failures.
\<close>

datatype reply =
    Welcome
  | RoundClosed           \<comment> \<open>"Betting is currently closed."\<close>
  | SlotsFull             \<comment> \<open>"All slots are full!"\<close>
  | ChooseSide            \<comment> \<open>the Heads/Tails keyboard\<close>
  | NotRegistered         \<comment> \<open>"Please start the bot with /start first."\<close>
  | AlreadyBet            \<comment> \<open>"You have already placed a bet!"\<close>
  | InvalidChoice         \<comment> \<open>"Invalid bet choice."\<close>
  | PaymentQR string      \<comment> \<open>the payment image for the recorded choice\<close>
  | NoBetPlaced           \<comment> \<open>"Please place a bet using the /bet command ..."\<close>
  | AttemptsExceeded      \<comment> \<open>"Maximum Attempts Reached!"\<close>
  | PaymentForwarded bool int
      \<comment> \<open>screenshot forwarded to the admin; "Final Attempt!" sent first; attempts reported\<close>
  | Unauthorized          \<comment> \<open>"You are not authorized to perform this action."\<close>
  | Usage                 \<comment> \<open>the usage line of a command called without arguments\<close>
  | ValueError            \<comment> \<open>\<open>int(context.args[0])\<close> raised and nothing caught it\<close>
  | UserApproved int      \<comment> \<open>"User ... has been approved."\<close>
  | UserDisapproved int   \<comment> \<open>"User ... has been disapproved."\<close>
  | UserNotFound          \<comment> \<open>"User not found in pending confirmations."\<close>
  | InvalidSide           \<comment> \<open>"Invalid Result!"\<close>
  | ResultDeclared string \<comment> \<open>"Result Declared!"\<close>
  | ResetComplete
  | BettingScheduled string
  | AnnouncementSet string
  | TotalSlotsSet int
  | InvalidInput          \<comment> \<open>"Invalid number. Please provide a valid integer."\<close>
  | BettingClosedNow
  | BettingOpenNow
  | Shown                 \<comment> \<open>the text of a read-only command\<close>

section \<open>Handlers\<close>

text \<open>\<open>start\<close>: a first contact inserts the user's document.\<close>

definition start :: "int \<Rightarrow> string \<Rightarrow> db \<Rightarrow> reply \<times> db" where
  "start uid full_name s =
     (case find_one (users_collection s) uid of
        None \<Rightarrow>
          (Welcome,
           set_users (\<lambda>us. us @ [\<lparr>user_id = Some uid, name = full_name, bet = None,
                                   status = None, payment_attempts = 0\<rparr>]) s)
      | Some u \<Rightarrow> (Welcome, s))"

text \<open>
  The \<open>/bet\<close> command (the source's \<open>bet\<close>; the name is the field's here). It reads the
  settings only and offers the keyboard.
\<close>

definition bet_cmd :: "db \<Rightarrow> reply \<times> db" where
  "bet_cmd s =
     (if \<not> betting_open (settings_collection s) then (RoundClosed, s)
      else if available_slots (settings_collection s) \<le> 0 then (SlotsFull, s)
      else (ChooseSide, s))"

text \<open>\<open>handle_bet_choice\<close>: a press on a keyboard button, with the button's data.\<close>

definition handle_bet_choice :: "int \<Rightarrow> string \<Rightarrow> db \<Rightarrow> reply \<times> db" where
  "handle_bet_choice uid choice s =
     (case find_one (users_collection s) uid of
        None \<Rightarrow> (NotRegistered, s)
      | Some user_data \<Rightarrow>
          if bet user_data \<noteq> None then (AlreadyBet, s)
          else if choice \<notin> set [''heads'', ''tails''] then (InvalidChoice, s)
          else (PaymentQR choice,
                set_users (update_one uid (\<lambda>u. u\<lparr>bet := Some choice\<rparr>)) s))"

text \<open>
  \<open>handle_payment_screenshot\<close> makes two separate writes, in this order: the status,
  then the counter. \<open>payment_writes\<close> lists them; the handler applies both.
\<close>

definition payment_writes :: "int \<Rightarrow> (db \<Rightarrow> db) list" where
  "payment_writes uid =
     [set_users (update_one uid (\<lambda>u. u\<lparr>status := Some ''waiting''\<rparr>)),
      set_users (update_one uid (\<lambda>u. u\<lparr>payment_attempts := payment_attempts u + 1\<rparr>))]"

definition apply_writes :: "(db \<Rightarrow> db) list \<Rightarrow> db \<Rightarrow> db" where
  "apply_writes ws s = fold (\<lambda>w t. w t) ws s"

definition handle_payment_screenshot :: "int \<Rightarrow> db \<Rightarrow> reply \<times> db" where
  "handle_payment_screenshot uid s =
     (case find_one (users_collection s) uid of
        None \<Rightarrow> (NotRegistered, s)
      | Some user_data \<Rightarrow>
          if \<not> truthy (bet user_data) then (NoBetPlaced, s)
          else if payment_attempts user_data \<ge> 3 then (AttemptsExceeded, s)
          else (PaymentForwarded (payment_attempts user_data + 1 = 3)
                                 (payment_attempts user_data + 1),
                apply_writes (payment_writes uid) s))"

text \<open>
  The database after the handler stopped having made only its first \<open>k\<close> writes.
\<close>

definition payment_interrupted :: "nat \<Rightarrow> int \<Rightarrow> db \<Rightarrow> db" where
  "payment_interrupted k uid s = apply_writes (take k (payment_writes uid)) s"

text \<open>
  The admin commands take \<open>ADMIN_ID\<close> (read from the environment), the caller's id and the
  command's arguments. Where the handler calls \<open>int\<close> on an argument, the argument is
  given as the outcome of that call: \<open>Some n\<close>, or \<open>None\<close> when \<open>int\<close> raises.
\<close>

definition approve_user :: "int \<Rightarrow> int \<Rightarrow> int option list \<Rightarrow> db \<Rightarrow> reply \<times> db" where
  "approve_user ADMIN_ID caller args s =
     (if caller \<noteq> ADMIN_ID then (Unauthorized, s)
      else case args of
        [] \<Rightarrow> (Usage, s)
      | None # _ \<Rightarrow> (ValueError, s)
      | Some uid # _ \<Rightarrow>
          (case find_one (users_collection s) uid of
             Some user_data \<Rightarrow>
               (UserApproved uid,
                (set_settings (\<lambda>st. st\<lparr>available_slots := available_slots st + (- 1)\<rparr>)
                  (set_users (update_one uid
                     (\<lambda>u. u\<lparr>status := Some ''approved'', payment_attempts := 0\<rparr>)) s))
                \<lparr>pending_confirmations_collection :=
                    delete_one uid (pending_confirmations_collection s)\<rparr>)
           | None \<Rightarrow> (UserNotFound, s)))"

definition disapprove_user :: "int \<Rightarrow> int \<Rightarrow> int option list \<Rightarrow> db \<Rightarrow> reply \<times> db" where
  "disapprove_user ADMIN_ID caller args s =
     (if caller \<noteq> ADMIN_ID then (Unauthorized, s)
      else case args of
        [] \<Rightarrow> (Usage, s)
      | None # _ \<Rightarrow> (ValueError, s)
      | Some uid # _ \<Rightarrow>
          (case find_one (users_collection s) uid of
             Some user_data \<Rightarrow>
               (UserDisapproved uid,
                (set_users (update_one uid
                   (\<lambda>u. u\<lparr>status := Some ''disapproved'', payment_attempts := 0\<rparr>)) s)
                \<lparr>pending_confirmations_collection :=
                    delete_one uid (pending_confirmations_collection s)\<rparr>)
           | None \<Rightarrow> (UserNotFound, s)))"

text \<open>\<open>{"$inc": {result: 1}}\<close> on the results document.\<close>

definition inc_result :: "string \<Rightarrow> results \<Rightarrow> results" where
  "inc_result result r =
     (if result = ''heads'' then r\<lparr>heads := heads r + 1\<rparr>
      else if result = ''tails'' then r\<lparr>tails := tails r + 1\<rparr>
      else r)"

text \<open>
  The winners of \<open>declare_result\<close>: the \<open>user_id\<close> of every document found by
  \<open>{"bet": result, "status": "approved"}\<close> that has one, in collection order.
\<close>

definition find_winners :: "string \<Rightarrow> user list \<Rightarrow> int list" where
  "find_winners result us =
     map (\<lambda>u. the (user_id u))
       (filter (\<lambda>u. user_id u \<noteq> None)
          (filter (\<lambda>u. bet u = Some result \<and> status u = Some ''approved'') us))"

definition declare_result :: "int \<Rightarrow> int \<Rightarrow> string list \<Rightarrow> db \<Rightarrow> reply \<times> db" where
  "declare_result ADMIN_ID caller args s =
     (if caller \<noteq> ADMIN_ID then (Unauthorized, s)
      else case args of
        [] \<Rightarrow> (Usage, s)
      | a # _ \<Rightarrow>
          (let result = lower a in
           if result \<notin> set [''heads'', ''tails''] then (InvalidSide, s)
           else (ResultDeclared result,
                 set_settings (\<lambda>st. st\<lparr>available_slots := total_slots st\<rparr>)
                   (s\<lparr>results_collection := inc_result result (results_collection s),
                      winners_collection := find_winners result (users_collection s)\<rparr>))))"

text \<open>\<open>reset\<close> (the module defines it twice, with the same writes).\<close>

definition reset :: "int \<Rightarrow> int \<Rightarrow> db \<Rightarrow> reply \<times> db" where
  "reset ADMIN_ID caller s =
     (if caller \<noteq> ADMIN_ID then (Unauthorized, s)
      else (ResetComplete,
            set_settings
              (\<lambda>st. st\<lparr>available_slots := total_slots st, next_betting_time := None,
                        result_announcement_time := None\<rparr>)
              (s\<lparr>users_collection :=
                    update_many (\<lambda>u. bet u \<noteq> None)
                      (\<lambda>u. u\<lparr>bet := None, status := None, payment_attempts := 0\<rparr>)
                      (users_collection s),
                 pending_confirmations_collection := [],
                 winners_collection := [],
                 results_collection := \<lparr>heads = 0, tails = 0\<rparr>\<rparr>)))"

definition schedule_betting :: "int \<Rightarrow> int \<Rightarrow> string list \<Rightarrow> db \<Rightarrow> reply \<times> db" where
  "schedule_betting ADMIN_ID caller args s =
     (if caller \<noteq> ADMIN_ID then (Unauthorized, s)
      else if args = [] then (Usage, s)
      else (BettingScheduled (join_args args),
            set_settings (\<lambda>st. st\<lparr>next_betting_time := Some (join_args args)\<rparr>) s))"

definition set_announcement_time :: "int \<Rightarrow> int \<Rightarrow> string list \<Rightarrow> db \<Rightarrow> reply \<times> db" where
  "set_announcement_time ADMIN_ID caller args s =
     (if caller \<noteq> ADMIN_ID then (Unauthorized, s)
      else if args = [] then (Usage, s)
      else (AnnouncementSet (join_args args),
            set_settings (\<lambda>st. st\<lparr>result_announcement_time := Some (join_args args)\<rparr>) s))"

definition fix_slots :: "int \<Rightarrow> int \<Rightarrow> int option list \<Rightarrow> db \<Rightarrow> reply \<times> db" where
  "fix_slots ADMIN_ID caller args s =
     (if caller \<noteq> ADMIN_ID then (Unauthorized, s)
      else case args of
        [] \<Rightarrow> (Usage, s)
      | None # _ \<Rightarrow> (InvalidInput, s)
      | Some n # _ \<Rightarrow>
          (TotalSlotsSet n,
           set_settings (\<lambda>st. st\<lparr>total_slots := n, available_slots := n\<rparr>) s))"

definition close_betting :: "int \<Rightarrow> int \<Rightarrow> db \<Rightarrow> reply \<times> db" where
  "close_betting ADMIN_ID caller s =
     (if caller \<noteq> ADMIN_ID then (Unauthorized, s)
      else (BettingClosedNow, set_settings (\<lambda>st. st\<lparr>betting_open := False\<rparr>) s))"

definition open_betting :: "int \<Rightarrow> int \<Rightarrow> db \<Rightarrow> reply \<times> db" where
  "open_betting ADMIN_ID caller s =
     (if caller \<noteq> ADMIN_ID then (Unauthorized, s)
      else (BettingOpenNow, set_settings (\<lambda>st. st\<lparr>betting_open := True\<rparr>) s))"

section \<open>Sequences of updates\<close>

text \<open>
  The updates the application dispatches to its handlers. \<open>View\<close> stands for the commands
  that only read (\<open>help\<close>, \<open>status\<close>, \<open>results\<close>, \<open>pending\<close>, \<open>participants\<close>, \<open>nextbet\<close>,
  \<open>slots\<close>, \<open>winners\<close>, \<open>adminview\<close>, \<open>showall\<close>, \<open>broadcast\<close>).
\<close>

datatype event =
    Start int string
  | Bet int
  | BetChoice int string
  | Photo int
  | Approve int "int option list"
  | Disapprove int "int option list"
  | Declare int "string list"
  | Reset int
  | Schedule int "string list"
  | SetAnnouncement int "string list"
  | FixSlots int "int option list"
  | CloseBetting int
  | OpenBetting int
  | View int

fun step :: "int \<Rightarrow> event \<Rightarrow> db \<Rightarrow> reply \<times> db" where
  "step A (Start uid nm) s = start uid nm s"
| "step A (Bet uid) s = bet_cmd s"
| "step A (BetChoice uid c) s = handle_bet_choice uid c s"
| "step A (Photo uid) s = handle_payment_screenshot uid s"
| "step A (Approve caller args) s = approve_user A caller args s"
| "step A (Disapprove caller args) s = disapprove_user A caller args s"
| "step A (Declare caller args) s = declare_result A caller args s"
| "step A (Reset caller) s = reset A caller s"
| "step A (Schedule caller args) s = schedule_betting A caller args s"
| "step A (SetAnnouncement caller args) s = set_announcement_time A caller args s"
| "step A (FixSlots caller args) s = fix_slots A caller args s"
| "step A (CloseBetting caller) s = close_betting A caller s"
| "step A (OpenBetting caller) s = open_betting A caller s"
| "step A (View caller) s = (Shown, s)"

fun run :: "int \<Rightarrow> event list \<Rightarrow> db \<Rightarrow> db" where
  "run A [] s = s"
| "run A (e # es) s = run A es (snd (step A e s))"

section \<open>Predicates of the specification\<close>

text \<open>The events that write the winners document.\<close>

fun rewrites_winners :: "event \<Rightarrow> bool" where
  "rewrites_winners (Declare caller args) = True"
| "rewrites_winners (Reset caller) = True"
| "rewrites_winners e = False"

text \<open>The capacity bound that every handler keeps.\<close>

definition slots_le :: "db \<Rightarrow> bool" where
  "slots_le s = (available_slots (settings_collection s) \<le> total_slots (settings_collection s))"

text \<open>
  The invariant of a user's counter: at most three attempts, and none recorded while no
  bet is placed.
\<close>

definition attempts_ok :: "user \<Rightarrow> bool" where
  "attempts_ok u =
     (payment_attempts u \<le> 3 \<and> (\<not> truthy (bet u) \<longrightarrow> payment_attempts u = 0))"

text \<open>
  The specification's atomicity of a payment submission, at the interruption point \<open>k\<close>:
  the user's document is as it was before the handler or as the handler leaves it.
\<close>

definition atomic_at :: "nat \<Rightarrow> int \<Rightarrow> db \<Rightarrow> bool" where
  "atomic_at k uid s =
     (find_one (users_collection (payment_interrupted k uid s)) uid =
        find_one (users_collection s) uid \<or>
      find_one (users_collection (payment_interrupted k uid s)) uid =
        find_one (users_collection (snd (handle_payment_screenshot uid s))) uid)"

section \<open>Example databases\<close>

definition ann :: user where
  "ann = \<lparr>user_id = Some 7, name = ''ann'', bet = Some ''heads'',
          status = Some ''approved'', payment_attempts = 0\<rparr>"

definition bob :: user where
  "bob = \<lparr>user_id = Some 8, name = ''bob'', bet = Some ''tails'',
          status = Some ''waiting'', payment_attempts = 1\<rparr>"

definition cat :: user where
  "cat = \<lparr>user_id = Some 9, name = ''cat'', bet = None,
          status = Some ''approved'', payment_attempts = 0\<rparr>"

definition eve :: user where
  "eve = \<lparr>user_id = Some 10, name = ''eve'', bet = None, status = None,
          payment_attempts = 0\<rparr>"

definition dan :: user where
  "dan = \<lparr>user_id = Some 7, name = ''dan'', bet = Some ''tails'', status = None,
          payment_attempts = 2\<rparr>"

definition round_db :: db where
  "round_db =
     \<lparr>users_collection = [placeholder, ann, bob, cat, eve],
      pending_confirmations_collection = [None],
      results_collection = \<lparr>heads = 4, tails = 2\<rparr>,
      winners_collection = [8],
      settings_collection =
        \<lparr>next_betting_time = Some ''18:00'', betting_open = True, total_slots = 2,
         available_slots = 1, result_announcement_time = Some ''19:00''\<rparr>\<rparr>"

definition paying_db :: db where
  "paying_db = init_db\<lparr>users_collection := [placeholder, dan]\<rparr>"

definition two_approvals :: "event list" where
  "two_approvals =
     [Start 7 ''ann'', Start 8 ''bob'', FixSlots 1 [Some 1],
      Approve 1 [Some 7], Approve 1 [Some 8]]"

definition three_photos :: "event list" where
  "three_photos = [Start 7 ''ann'', BetChoice 7 ''tails'', Photo 7, Photo 7, Photo 7]"

definition stale_keyboard :: "event list" where
  "stale_keyboard =
     [Start 7 ''ann'', OpenBetting 1, Bet 7, CloseBetting 1, FixSlots 1 [Some 0]]"

section \<open>Facts about the collection primitives\<close>

lemmas handler_defs =
  start_def bet_cmd_def handle_bet_choice_def handle_payment_screenshot_def
  approve_user_def disapprove_user_def declare_result_def reset_def schedule_betting_def
  set_announcement_time_def fix_slots_def close_betting_def open_betting_def
  set_users_def set_settings_def apply_writes_def payment_writes_def

lemmas example_defs =
  init_db_def placeholder_def round_db_def paying_db_def ann_def bob_def cat_def eve_def
  dan_def

lemma find_one_update_one:
  "(\<And>u. user_id (f u) = user_id u) \<Longrightarrow>
   find_one (update_one uid f us) uid' =
     (if uid' = uid then map_option f (find_one us uid) else find_one us uid')"
  by (induction us) auto

lemma length_update_one: "length (update_one uid f us) = length us"
  by (induction us) auto

lemma map_user_id_update_one:
  "(\<And>u. user_id (f u) = user_id u) \<Longrightarrow>
   map user_id (update_one uid f us) = map user_id us"
  by (induction us) auto

lemma find_one_in_set: "find_one us uid = Some u \<Longrightarrow> u \<in> set us \<and> user_id u = Some uid"
  by (induction us) (auto split: if_splits)

text \<open>An update of the first match rewrites one position of the list.\<close>

lemma update_one_splits:
  "find_one us uid = Some u \<Longrightarrow>
   \<exists>pre post. us = pre @ u # post \<and> update_one uid f us = pre @ f u # post \<and>
     find_one pre uid = None"
proof (induction us)
  case Nil
  then show ?case by simp
next
  case (Cons a us)
  show ?case
  proof (cases "user_id a = Some uid")
    case True
    with Cons.prems have "a = u" by simp
    with True show ?thesis by (intro exI[of _ "[]"] exI[of _ us]) simp
  next
    case False
    with Cons.prems have "find_one us uid = Some u" by simp
    from Cons.IH[OF this] obtain pre post where
      "us = pre @ u # post" "update_one uid f us = pre @ f u # post" "find_one pre uid = None"
      by blast
    with False show ?thesis by (intro exI[of _ "a # pre"] exI[of _ post]) simp
  qed
qed

lemma attempts_ok_update_one:
  "\<forall>u\<in>set us. attempts_ok u \<Longrightarrow>
   (\<And>u. attempts_ok u \<Longrightarrow> user_id u = Some uid \<Longrightarrow> attempts_ok (f u)) \<Longrightarrow>
   \<forall>u\<in>set (update_one uid f us). attempts_ok u"
  by (induction us) auto

lemma set_find_winners:
  "set (find_winners r us) =
     {uid. \<exists>u \<in> set us. user_id u = Some uid \<and> bet u = Some r \<and> status u = Some ''approved''}"
  by (force simp: find_winners_def)

lemma lower_upper_heads: "lower ''HEADS'' = ''heads''"
  by code_simp

section \<open>Approval\<close>

text \<open>
  C9. Approval asks only that the caller is the operator and that the user's document
  exists: whatever the user's bet and status (also with neither set), the reply is the
  approval, the status becomes approved, the attempts become 0 and the available slots
  drop by 1.
\<close>

theorem approve_any_registered_user:
  assumes "find_one (users_collection s) uid = Some u"
  shows "fst (approve_user A A (Some uid # rest) s) = UserApproved uid \<and>
     find_one (users_collection (snd (approve_user A A (Some uid # rest) s))) uid =
       Some (u\<lparr>status := Some ''approved'', payment_attempts := 0\<rparr>) \<and>
     available_slots (settings_collection (snd (approve_user A A (Some uid # rest) s))) =
       available_slots (settings_collection s) - 1"
  using assms
  by (simp add: approve_user_def set_users_def set_settings_def find_one_update_one)

text \<open>The user of the example has placed no bet and sent no payment.\<close>

theorem approve_any_registered_user_witness:
  "find_one (users_collection round_db) 10 = Some eve \<and>
   bet eve = None \<and> status eve = None \<and>
   fst (approve_user 1 1 [Some 10] round_db) = UserApproved 10 \<and>
   find_one (users_collection (snd (approve_user 1 1 [Some 10] round_db))) 10 =
     Some (eve\<lparr>status := Some ''approved'', payment_attempts := 0\<rparr>) \<and>
   available_slots (settings_collection (snd (approve_user 1 1 [Some 10] round_db))) = 0"
proof -
  have h: "find_one (users_collection round_db) 10 = Some eve"
    by (simp add: example_defs)
  have a: "available_slots (settings_collection round_db) = 1"
    by (simp add: round_db_def)
  show ?thesis
    using h a approve_any_registered_user [OF h, of 1 "[]"]
    by (simp add: eve_def)
qed

text \<open>
  C2, as the code has it. Approval has no guard on the present status: on an existing
  user whose status is already approved it succeeds again, leaves the status approved
  with 0 attempts and takes one more slot; on a user whose status is not approved it sets
  the status to approved, the attempts to 0 and takes one slot.
\<close>

theorem approve_whatever_status:
  assumes "find_one (users_collection s) uid = Some u"
  shows "(status u = Some ''approved'' \<longrightarrow>
            fst (approve_user A A [Some uid] s) = UserApproved uid \<and>
            find_one (users_collection (snd (approve_user A A [Some uid] s))) uid =
              Some (u\<lparr>payment_attempts := 0\<rparr>) \<and>
            available_slots (settings_collection (snd (approve_user A A [Some uid] s))) =
              available_slots (settings_collection s) - 1) \<and>
         (status u \<noteq> Some ''approved'' \<longrightarrow>
            fst (approve_user A A [Some uid] s) = UserApproved uid \<and>
            status (the (find_one (users_collection (snd (approve_user A A [Some uid] s))) uid)) =
              Some ''approved'' \<and>
            payment_attempts
              (the (find_one (users_collection (snd (approve_user A A [Some uid] s))) uid)) = 0 \<and>
            available_slots (settings_collection (snd (approve_user A A [Some uid] s))) =
              available_slots (settings_collection s) - 1)"
  using assms
  by (auto simp: approve_user_def set_users_def set_settings_def find_one_update_one)

theorem approve_whatever_status_witness:
  "find_one (users_collection round_db) 7 = Some ann \<and> status ann = Some ''approved'' \<and>
   fst (approve_user 1 1 [Some 7] round_db) = UserApproved 7 \<and>
   available_slots (settings_collection (snd (approve_user 1 1 [Some 7] round_db))) = 0 \<and>
   find_one (users_collection round_db) 8 = Some bob \<and> status bob \<noteq> Some ''approved'' \<and>
   fst (approve_user 1 1 [Some 8] round_db) = UserApproved 8 \<and>
   status (the (find_one (users_collection (snd (approve_user 1 1 [Some 8] round_db))) 8)) =
     Some ''approved'' \<and>
   available_slots (settings_collection (snd (approve_user 1 1 [Some 8] round_db))) = 0"
proof -
  have h7: "find_one (users_collection round_db) 7 = Some ann"
    by (simp add: example_defs)
  have h8: "find_one (users_collection round_db) 8 = Some bob"
    by (simp add: example_defs)
  have s7: "status ann = Some ''approved''" by (simp add: ann_def)
  have s8: "status bob \<noteq> Some ''approved''" by (simp add: bob_def)
  have a: "available_slots (settings_collection round_db) = 1"
    by (simp add: round_db_def)
  show ?thesis
    using h7 h8 s7 s8 a approve_whatever_status [OF h7, of 1] approve_whatever_status [OF h8, of 1]
    by simp
qed

text \<open>
  C2 as stated fails: the operator approves a user whose status is already approved; the
  call is answered as an approval, not refused, and the database has changed (the
  available slots went from 1 to 0).
\<close>

theorem reapproval_changes_state:
  "find_one (users_collection round_db) 7 = Some ann \<and>
   status ann = Some ''approved'' \<and>
   fst (approve_user 1 1 [Some 7] round_db) = UserApproved 7 \<and>
   snd (approve_user 1 1 [Some 7] round_db) \<noteq> round_db \<and>
   available_slots (settings_collection round_db) = 1 \<and>
   available_slots (settings_collection (snd (approve_user 1 1 [Some 7] round_db))) = 0"
proof -
  have a: "available_slots (settings_collection (snd (approve_user 1 1 [Some 7] round_db))) = 0"
    by (simp add: approve_user_def example_defs set_users_def set_settings_def)
  have b: "available_slots (settings_collection round_db) = 1"
    by (simp add: round_db_def)
  have c: "snd (approve_user 1 1 [Some 7] round_db) \<noteq> round_db"
    using a b by auto
  have d: "fst (approve_user 1 1 [Some 7] round_db) = UserApproved 7"
    by (simp add: approve_user_def example_defs)
  have e: "find_one (users_collection round_db) 7 = Some ann"
    by (simp add: example_defs)
  show ?thesis using a b c d e by (simp add: ann_def)
qed

text \<open>
  C10. Approval leaves the attempts at 0, so a user with a bet who has just been approved
  can send a payment screenshot again: it is accepted as attempt 1, the status goes back
  to waiting, and the slot taken by the approval is not given back.
\<close>

theorem approved_user_can_resubmit:
  assumes "find_one (users_collection s) uid = Some u" and "truthy (bet u)"
  shows "fst (handle_payment_screenshot uid (snd (approve_user A A (Some uid # rest) s))) =
           PaymentForwarded False 1 \<and>
     find_one (users_collection (snd (approve_user A A (Some uid # rest) s))) uid =
       Some (u\<lparr>status := Some ''approved'', payment_attempts := 0\<rparr>) \<and>
     find_one (users_collection
        (snd (handle_payment_screenshot uid (snd (approve_user A A (Some uid # rest) s))))) uid =
       Some (u\<lparr>status := Some ''waiting'', payment_attempts := 1\<rparr>) \<and>
     available_slots (settings_collection
        (snd (handle_payment_screenshot uid (snd (approve_user A A (Some uid # rest) s))))) =
       available_slots (settings_collection s) - 1"
  using assms
  by (simp add: approve_user_def handle_payment_screenshot_def set_users_def set_settings_def
        find_one_update_one apply_writes_def payment_writes_def)

theorem approved_user_can_resubmit_witness:
  "find_one (users_collection round_db) 8 = Some bob \<and> truthy (bet bob) \<and>
   fst (handle_payment_screenshot 8 (snd (approve_user 1 1 [Some 8] round_db))) =
     PaymentForwarded False 1 \<and>
   find_one (users_collection
      (snd (handle_payment_screenshot 8 (snd (approve_user 1 1 [Some 8] round_db))))) 8 =
     Some (bob\<lparr>status := Some ''waiting'', payment_attempts := 1\<rparr>) \<and>
   available_slots (settings_collection
      (snd (handle_payment_screenshot 8 (snd (approve_user 1 1 [Some 8] round_db))))) = 0"
proof -
  have h: "find_one (users_collection round_db) 8 = Some bob"
    by (simp add: example_defs)
  have t: "truthy (bet bob)" by (simp add: bob_def truthy_def)
  have a: "available_slots (settings_collection round_db) = 1"
    by (simp add: round_db_def)
  show ?thesis
    using h t a approved_user_can_resubmit [OF h t, of 1 "[]"] by simp
qed

section \<open>Capacity\<close>

lemma step_slots_le: "slots_le s \<Longrightarrow> slots_le (snd (step A e s))"
  by (cases e)
     (auto simp: slots_le_def handler_defs Let_def split: option.splits list.splits)

lemma run_slots_le: "slots_le s \<Longrightarrow> slots_le (run A es s)"
  by (induction es arbitrary: s) (auto simp: step_slots_le)

text \<open>
  C1, as the code has it. Over every sequence of events the available slots never exceed
  the total slots, once they do not at the start. A successful approval lowers the
  available slots by exactly 1 and leaves the total; an approval that does not succeed
  changes nothing. No handler keeps the available slots from falling below 0.
\<close>

theorem slots_never_exceed_total:
  assumes "available_slots (settings_collection s) \<le> total_slots (settings_collection s)"
  shows "available_slots (settings_collection (run A es s)) \<le>
           total_slots (settings_collection (run A es s)) \<and>
     ((\<exists>uid. fst (approve_user A caller args s) = UserApproved uid) \<longrightarrow>
        available_slots (settings_collection (snd (approve_user A caller args s))) =
          available_slots (settings_collection s) - 1 \<and>
        total_slots (settings_collection (snd (approve_user A caller args s))) =
          total_slots (settings_collection s)) \<and>
     (\<not> (\<exists>uid. fst (approve_user A caller args s) = UserApproved uid) \<longrightarrow>
        snd (approve_user A caller args s) = s)"
proof -
  have "slots_le (run A es s)"
    using assms run_slots_le by (simp add: slots_le_def)
  then have a: "available_slots (settings_collection (run A es s)) \<le>
           total_slots (settings_collection (run A es s))"
    by (simp add: slots_le_def)
  have b: "(\<exists>uid. fst (approve_user A caller args s) = UserApproved uid) \<longrightarrow>
        available_slots (settings_collection (snd (approve_user A caller args s))) =
          available_slots (settings_collection s) - 1 \<and>
        total_slots (settings_collection (snd (approve_user A caller args s))) =
          total_slots (settings_collection s)"
    by (auto simp: approve_user_def set_users_def set_settings_def
          split: option.splits list.splits)
  have c: "\<not> (\<exists>uid. fst (approve_user A caller args s) = UserApproved uid) \<longrightarrow>
        snd (approve_user A caller args s) = s"
    by (auto simp: approve_user_def set_users_def set_settings_def
          split: option.splits list.splits)
  show ?thesis using a b c by blast
qed

theorem slots_never_exceed_total_witness:
  "available_slots (settings_collection round_db) \<le> total_slots (settings_collection round_db) \<and>
   available_slots (settings_collection (run 1 [Approve 1 [Some 8], Reset 1] round_db)) \<le>
     total_slots (settings_collection (run 1 [Approve 1 [Some 8], Reset 1] round_db)) \<and>
   fst (approve_user 1 1 [Some 8] round_db) = UserApproved 8 \<and>
   available_slots (settings_collection (snd (approve_user 1 1 [Some 8] round_db))) = 0 \<and>
   total_slots (settings_collection (snd (approve_user 1 1 [Some 8] round_db))) = 2"
proof -
  have h: "available_slots (settings_collection round_db) \<le>
      total_slots (settings_collection round_db)"
    by (simp add: round_db_def)
  have n: "fst (approve_user 1 1 [Some 8] round_db) = UserApproved 8"
    by (simp add: approve_user_def example_defs)
  have v: "available_slots (settings_collection round_db) = 1"
      "total_slots (settings_collection round_db) = 2"
    by (simp_all add: round_db_def)
  show ?thesis
    using h n v
      slots_never_exceed_total [OF h, of 1 "[Approve 1 [Some 8], Reset 1]" 1 "[Some 8]"]
    by simp
qed

text \<open>
  C1 as stated fails: with one slot in total, the operator approves two registered
  users, one after the other; the available slots are then below 0.
\<close>

theorem approvals_drive_slots_negative:
  "available_slots (settings_collection (run 1 two_approvals init_db)) = - 1 \<and>
   \<not> 0 \<le> available_slots (settings_collection (run 1 two_approvals init_db))"
  by (simp add: two_approvals_def handler_defs init_db_def placeholder_def delete_one_def)

section \<open>Declaration and reset\<close>

lemma step_keeps_winners:
  "\<not> rewrites_winners e \<Longrightarrow> winners_collection (snd (step A e s)) = winners_collection s"
  by (cases e)
     (auto simp: start_def bet_cmd_def handle_bet_choice_def handle_payment_screenshot_def
        approve_user_def disapprove_user_def schedule_betting_def set_announcement_time_def
        fix_slots_def close_betting_def open_betting_def set_users_def set_settings_def
        apply_writes_def payment_writes_def
        split: option.splits list.splits)

text \<open>
  C3. After the operator declares heads or tails, the winners are exactly the ids of the
  users whose bet is the declared side and whose status is approved in the database the
  call started from, whatever the winners were before. A later bet choice, and any later
  event other than a declaration or a reset, leaves the computed winners as they are.
\<close>

theorem declare_winner_set:
  assumes "lower a = ''heads'' \<or> lower a = ''tails''"
  shows "set (winners_collection (snd (declare_result A A (a # rest) s))) =
       {uid. \<exists>u \<in> set (users_collection s).
          user_id u = Some uid \<and> bet u = Some (lower a) \<and> status u = Some ''approved''} \<and>
     winners_collection (snd (handle_bet_choice uid c (snd (declare_result A A (a # rest) s)))) =
       winners_collection (snd (declare_result A A (a # rest) s)) \<and>
     (\<not> rewrites_winners e \<longrightarrow>
        winners_collection (snd (step A e (snd (declare_result A A (a # rest) s)))) =
        winners_collection (snd (declare_result A A (a # rest) s)))"
proof -
  let ?s' = "snd (declare_result A A (a # rest) s)"
  have w: "winners_collection ?s' = find_winners (lower a) (users_collection s)"
    using assms by (auto simp: declare_result_def set_settings_def Let_def)
  have b: "winners_collection (snd (handle_bet_choice uid c ?s')) = winners_collection ?s'"
    using step_keeps_winners [of "BetChoice uid c" A ?s'] by simp
  show ?thesis
    using w b step_keeps_winners [of e A ?s'] by (simp add: set_find_winners)
qed

text \<open>
  In the example the winners were \<open>[8]\<close> before; user 9 is approved without a bet,
  bets on heads after the declaration and does not become a winner.
\<close>

theorem declare_winner_set_witness:
  "lower ''HEADS'' = ''heads'' \<and>
   winners_collection (snd (declare_result 1 1 [''HEADS''] round_db)) = [7] \<and>
   set (winners_collection (snd (declare_result 1 1 [''HEADS''] round_db))) =
       {uid. \<exists>u \<in> set (users_collection round_db).
          user_id u = Some uid \<and> bet u = Some ''heads'' \<and> status u = Some ''approved''} \<and>
   fst (handle_bet_choice 9 ''heads'' (snd (declare_result 1 1 [''HEADS''] round_db))) =
     PaymentQR ''heads'' \<and>
   winners_collection
     (snd (handle_bet_choice 9 ''heads'' (snd (declare_result 1 1 [''HEADS''] round_db)))) = [7]"
proof -
  note l = lower_upper_heads
  have w: "winners_collection (snd (declare_result 1 1 [''HEADS''] round_db)) = [7]"
    by (simp add: declare_result_def l Let_def set_settings_def find_winners_def example_defs)
  have r: "fst (handle_bet_choice 9 ''heads'' (snd (declare_result 1 1 [''HEADS''] round_db))) =
      PaymentQR ''heads''"
    by (simp add: declare_result_def l Let_def set_settings_def handle_bet_choice_def
          example_defs)
  show ?thesis
    using l w r declare_winner_set [of "''HEADS''" 1 "[]" round_db 9 "''heads''" "View 1"]
    by simp
qed

text \<open>
  C7. A declaration of heads or tails by the operator sets the available slots to the
  total slots, leaves \<open>betting_open\<close> and the total as they are, changes no user document
  (no bet, status or attempts is cleared), and adds 1 to the counter of the declared side
  and 0 to the other.
\<close>

theorem declare_frame:
  assumes "lower a = ''heads'' \<or> lower a = ''tails''"
  shows "fst (declare_result A A (a # rest) s) = ResultDeclared (lower a) \<and>
     available_slots (settings_collection (snd (declare_result A A (a # rest) s))) =
       total_slots (settings_collection s) \<and>
     total_slots (settings_collection (snd (declare_result A A (a # rest) s))) =
       total_slots (settings_collection s) \<and>
     betting_open (settings_collection (snd (declare_result A A (a # rest) s))) =
       betting_open (settings_collection s) \<and>
     users_collection (snd (declare_result A A (a # rest) s)) = users_collection s \<and>
     heads (results_collection (snd (declare_result A A (a # rest) s))) =
       heads (results_collection s) + (if lower a = ''heads'' then 1 else 0) \<and>
     tails (results_collection (snd (declare_result A A (a # rest) s))) =
       tails (results_collection s) + (if lower a = ''tails'' then 1 else 0)"
  using assms
  by (auto simp: declare_result_def set_settings_def inc_result_def Let_def)

theorem declare_frame_witness:
  "lower ''HEADS'' = ''heads'' \<and>
   fst (declare_result 1 1 [''HEADS''] round_db) = ResultDeclared ''heads'' \<and>
   available_slots (settings_collection (snd (declare_result 1 1 [''HEADS''] round_db))) = 2 \<and>
   betting_open (settings_collection (snd (declare_result 1 1 [''HEADS''] round_db))) \<and>
   users_collection (snd (declare_result 1 1 [''HEADS''] round_db)) =
     [placeholder, ann, bob, cat, eve] \<and>
   heads (results_collection (snd (declare_result 1 1 [''HEADS''] round_db))) = 5 \<and>
   tails (results_collection (snd (declare_result 1 1 [''HEADS''] round_db))) = 2"
proof -
  note l = lower_upper_heads
  have v: "total_slots (settings_collection round_db) = 2"
      "betting_open (settings_collection round_db)"
      "users_collection round_db = [placeholder, ann, bob, cat, eve]"
      "heads (results_collection round_db) = 4"
      "tails (results_collection round_db) = 2"
    by (simp_all add: round_db_def)
  show ?thesis
    using l v declare_frame [of "''HEADS''" 1 "[]" round_db] by simp
qed

text \<open>
  C8. A reset by the operator clears bet, status and attempts of exactly the users whose
  bet is not \<open>None\<close> and leaves every other user document as it is; it removes no
  document (ids and names stay, in order), empties the winners, zeroes both counters,
  sets the available slots to the total slots, clears both times and leaves
  \<open>betting_open\<close> and the total as they are.
\<close>

theorem reset_effect:
  "fst (reset A A s) = ResetComplete \<and>
   users_collection (snd (reset A A s)) =
     map (\<lambda>u. if bet u \<noteq> None
               then u\<lparr>bet := None, status := None, payment_attempts := 0\<rparr> else u)
       (users_collection s) \<and>
   map user_id (users_collection (snd (reset A A s))) = map user_id (users_collection s) \<and>
   map name (users_collection (snd (reset A A s))) = map name (users_collection s) \<and>
   winners_collection (snd (reset A A s)) = [] \<and>
   results_collection (snd (reset A A s)) = \<lparr>heads = 0, tails = 0\<rparr> \<and>
   settings_collection (snd (reset A A s)) =
     \<lparr>next_betting_time = None, betting_open = betting_open (settings_collection s),
      total_slots = total_slots (settings_collection s),
      available_slots = total_slots (settings_collection s),
      result_announcement_time = None\<rparr>"
  by (simp add: reset_def set_settings_def update_many_def comp_def)

text \<open>
  In the example users 7 and 8 have a bet and are cleared; user 9, approved without a
  bet, keeps the status.
\<close>

theorem reset_effect_witness:
  "users_collection (snd (reset 1 1 round_db)) =
     [placeholder,
      \<lparr>user_id = Some 7, name = ''ann'', bet = None, status = None, payment_attempts = 0\<rparr>,
      \<lparr>user_id = Some 8, name = ''bob'', bet = None, status = None, payment_attempts = 0\<rparr>,
      cat, eve] \<and>
   winners_collection (snd (reset 1 1 round_db)) = [] \<and>
   settings_collection (snd (reset 1 1 round_db)) =
     \<lparr>next_betting_time = None, betting_open = True, total_slots = 2, available_slots = 2,
      result_announcement_time = None\<rparr>"
proof -
  have u: "users_collection round_db = [placeholder, ann, bob, cat, eve]"
    by (simp add: round_db_def)
  have v: "total_slots (settings_collection round_db) = 2"
      "betting_open (settings_collection round_db)"
    by (simp_all add: round_db_def)
  have b: "bet placeholder = None" "bet cat = None" "bet eve = None"
      "ann\<lparr>bet := None, status := None, payment_attempts := 0\<rparr> =
         \<lparr>user_id = Some 7, name = ''ann'', bet = None, status = None, payment_attempts = 0\<rparr>"
      "bob\<lparr>bet := None, status := None, payment_attempts := 0\<rparr> =
         \<lparr>user_id = Some 8, name = ''bob'', bet = None, status = None, payment_attempts = 0\<rparr>"
      "bet ann \<noteq> None" "bet bob \<noteq> None"
    by (simp_all add: example_defs)
  show ?thesis
    using reset_effect [of 1 round_db] by (simp add: u v b)
qed

section \<open>Payment submissions\<close>

lemma users_ok_payment:
  assumes "\<forall>u\<in>set (users_collection s). attempts_ok u"
  shows "\<forall>u\<in>set (users_collection (snd (handle_payment_screenshot uid s))). attempts_ok u"
proof (cases "find_one (users_collection s) uid")
  case None
  then show ?thesis using assms by (simp add: handle_payment_screenshot_def)
next
  case (Some d)
  show ?thesis
  proof (cases "truthy (bet d) \<and> payment_attempts d < 3")
    case False
    then show ?thesis using assms Some by (auto simp: handle_payment_screenshot_def)
  next
    case True
    from update_one_splits [OF Some, of "\<lambda>u. u\<lparr>status := Some ''waiting''\<rparr>"]
    obtain pre post where p: "users_collection s = pre @ d # post"
      "update_one uid (\<lambda>u. u\<lparr>status := Some ''waiting''\<rparr>) (users_collection s) =
         pre @ d\<lparr>status := Some ''waiting''\<rparr> # post"
      "find_one pre uid = None"
      by blast
    have q: "update_one uid (\<lambda>u. u\<lparr>payment_attempts := payment_attempts u + 1\<rparr>)
          (pre @ d\<lparr>status := Some ''waiting''\<rparr> # post) =
        pre @ d\<lparr>status := Some ''waiting'', payment_attempts := payment_attempts d + 1\<rparr> # post"
      using p(3) find_one_in_set [OF Some] by (induction pre) (auto split: if_splits)
    have "users_collection (snd (handle_payment_screenshot uid s)) =
        pre @ d\<lparr>status := Some ''waiting'', payment_attempts := payment_attempts d + 1\<rparr> # post"
      using True Some p q
      by (simp add: handle_payment_screenshot_def apply_writes_def payment_writes_def
            set_users_def)
    then show ?thesis using assms p(1) True by (auto simp: attempts_ok_def)
  qed
qed

lemma step_attempts_ok:
  assumes "\<forall>u\<in>set (users_collection s). attempts_ok u"
  shows "\<forall>u\<in>set (users_collection (snd (step A e s))). attempts_ok u"
proof (cases e)
  case (Photo uid)
  then show ?thesis using users_ok_payment [OF assms] by simp
next
  case (BetChoice uid c)
  have "\<forall>u\<in>set (update_one uid (\<lambda>u. u\<lparr>bet := Some c\<rparr>) (users_collection s)). attempts_ok u"
    if "c = ''heads'' \<or> c = ''tails''"
    using assms that by (intro attempts_ok_update_one) (auto simp: attempts_ok_def truthy_def)
  then show ?thesis using assms BetChoice
    by (auto simp: handle_bet_choice_def set_users_def split: option.splits)
next
  case (Approve caller args)
  have "\<forall>u\<in>set (update_one uid
            (\<lambda>u. u\<lparr>status := Some ''approved'', payment_attempts := 0\<rparr>)
            (users_collection s)). attempts_ok u" for uid
    using assms by (intro attempts_ok_update_one) (auto simp: attempts_ok_def)
  then show ?thesis using assms Approve
    by (auto simp: approve_user_def set_users_def set_settings_def
          split: option.splits list.splits)
next
  case (Disapprove caller args)
  have "\<forall>u\<in>set (update_one uid
            (\<lambda>u. u\<lparr>status := Some ''disapproved'', payment_attempts := 0\<rparr>)
            (users_collection s)). attempts_ok u" for uid
    using assms by (intro attempts_ok_update_one) (auto simp: attempts_ok_def)
  then show ?thesis using assms Disapprove
    by (auto simp: disapprove_user_def set_users_def split: option.splits list.splits)
next
  case (Reset caller)
  then show ?thesis using assms
    by (auto simp: reset_def set_settings_def update_many_def attempts_ok_def truthy_def)
next
  case (Start uid nm)
  then show ?thesis using assms
    by (auto simp: start_def set_users_def attempts_ok_def truthy_def split: option.splits)
qed (use assms in \<open>auto simp: bet_cmd_def declare_result_def schedule_betting_def
        set_announcement_time_def fix_slots_def close_betting_def open_betting_def
        set_settings_def Let_def split: list.splits option.splits\<close>)

lemma run_attempts_ok:
  "\<forall>u\<in>set (users_collection s). attempts_ok u \<Longrightarrow>
   \<forall>u\<in>set (users_collection (run A es s)). attempts_ok u"
proof (induction es arbitrary: s)
  case Nil
  then show ?case by simp
next
  case (Cons e es)
  show ?case using Cons.IH [OF step_attempts_ok [OF Cons.prems]] by simp
qed

lemma run_three_photos:
  "run 1 three_photos init_db =
     init_db\<lparr>users_collection :=
       [placeholder,
        \<lparr>user_id = Some 7, name = ''ann'', bet = Some ''tails'', status = Some ''waiting'',
         payment_attempts = 3\<rparr>]\<rparr>"
  by (simp add: three_photos_def handler_defs init_db_def placeholder_def truthy_def)

text \<open>
  C5. From a database in which every counter is in order (as in the initial one), after
  every sequence of events no user has more than 3 payment attempts; and a payment
  submission by a user whose attempts are 3 is refused as exceeding the attempts and
  leaves the whole database, so the attempts and every other field, unchanged.
\<close>

theorem payment_attempts_at_most_three:
  assumes "\<forall>u\<in>set (users_collection s). attempts_ok u"
  shows "(\<forall>u\<in>set (users_collection (run A es s)). payment_attempts u \<le> 3) \<and>
     (\<forall>u. find_one (users_collection (run A es s)) uid = Some u \<and> payment_attempts u = 3 \<longrightarrow>
        handle_payment_screenshot uid (run A es s) = (AttemptsExceeded, run A es s))"
proof -
  have ok: "\<forall>u\<in>set (users_collection (run A es s)). attempts_ok u"
    using run_attempts_ok [OF assms] .
  have a: "\<forall>u\<in>set (users_collection (run A es s)). payment_attempts u \<le> 3"
    using ok by (simp add: attempts_ok_def)
  have b: "handle_payment_screenshot uid (run A es s) = (AttemptsExceeded, run A es s)"
    if "find_one (users_collection (run A es s)) uid = Some u" "payment_attempts u = 3" for u
  proof -
    have "attempts_ok u" using ok find_one_in_set [OF that(1)] by blast
    then have "truthy (bet u)" using that(2) by (auto simp: attempts_ok_def)
    then show ?thesis using that by (simp add: handle_payment_screenshot_def)
  qed
  show ?thesis using a b by blast
qed

theorem payment_attempts_at_most_three_witness:
  "list_all attempts_ok (users_collection init_db) \<and>
   find_one (users_collection (run 1 three_photos init_db)) 7 =
     Some \<lparr>user_id = Some 7, name = ''ann'', bet = Some ''tails'', status = Some ''waiting'',
           payment_attempts = 3\<rparr> \<and>
   handle_payment_screenshot 7 (run 1 three_photos init_db) =
     (AttemptsExceeded, run 1 three_photos init_db)"
proof -
  have h: "\<forall>u\<in>set (users_collection init_db). attempts_ok u"
    by (simp add: init_db_def placeholder_def attempts_ok_def truthy_def)
  have f: "find_one (users_collection (run 1 three_photos init_db)) 7 =
     Some \<lparr>user_id = Some 7, name = ''ann'', bet = Some ''tails'', status = Some ''waiting'',
           payment_attempts = 3\<rparr>"
    by (simp add: run_three_photos placeholder_def)
  show ?thesis
    using h f payment_attempts_at_most_three [OF h, of 1 three_photos 7]
    by (simp add: list_all_iff)
qed

text \<open>
  C6, as the code has it. A payment submission by a registered user with a bet and fewer
  than 3 attempts is accepted and forwarded, with the final-attempt warning exactly when
  the attempt recorded is the 3rd. It sets the status to waiting and adds 1 to the
  attempts in two successive writes, the status first: after the first write alone the
  status is waiting and the attempts are not yet incremented. The settings are untouched.
\<close>

theorem payment_two_writes:
  assumes "find_one (users_collection s) uid = Some u" and "truthy (bet u)"
    and "payment_attempts u < 3"
  shows "handle_payment_screenshot uid s =
           (PaymentForwarded (payment_attempts u + 1 = 3) (payment_attempts u + 1),
            payment_interrupted 2 uid s) \<and>
     find_one (users_collection (payment_interrupted 2 uid s)) uid =
       Some (u\<lparr>status := Some ''waiting'', payment_attempts := payment_attempts u + 1\<rparr>) \<and>
     find_one (users_collection (payment_interrupted 1 uid s)) uid =
       Some (u\<lparr>status := Some ''waiting''\<rparr>) \<and>
     payment_interrupted 0 uid s = s \<and>
     settings_collection (payment_interrupted 2 uid s) = settings_collection s"
  using assms
  by (simp add: handle_payment_screenshot_def payment_interrupted_def apply_writes_def
        payment_writes_def set_users_def find_one_update_one)

theorem payment_two_writes_witness:
  "find_one (users_collection paying_db) 7 = Some dan \<and> truthy (bet dan) \<and>
   payment_attempts dan < 3 \<and>
   fst (handle_payment_screenshot 7 paying_db) = PaymentForwarded True 3 \<and>
   find_one (users_collection (snd (handle_payment_screenshot 7 paying_db))) 7 =
     Some (dan\<lparr>status := Some ''waiting'', payment_attempts := 3\<rparr>) \<and>
   find_one (users_collection (payment_interrupted 1 7 paying_db)) 7 =
     Some (dan\<lparr>status := Some ''waiting''\<rparr>)"
proof -
  have f: "find_one (users_collection paying_db) 7 = Some dan"
    by (simp add: example_defs)
  have t: "truthy (bet dan)" by (simp add: dan_def truthy_def)
  have p: "payment_attempts dan < 3" by (simp add: dan_def)
  have q: "payment_attempts dan + 1 = 3" by (simp add: dan_def)
  show ?thesis
    using f t p payment_two_writes [OF f t p] by (simp add: q)
qed

text \<open>
  C6 as stated fails: a submission stopped between its two writes leaves the user's
  document neither as before nor as after the submission (status waiting, attempts
  still 2).
\<close>

theorem payment_not_atomic:
  "\<not> atomic_at 1 7 paying_db \<and>
   find_one (users_collection paying_db) 7 =
     Some \<lparr>user_id = Some 7, name = ''dan'', bet = Some ''tails'', status = None,
           payment_attempts = 2\<rparr> \<and>
   find_one (users_collection (payment_interrupted 1 7 paying_db)) 7 =
     Some \<lparr>user_id = Some 7, name = ''dan'', bet = Some ''tails'', status = Some ''waiting'',
           payment_attempts = 2\<rparr> \<and>
   find_one (users_collection (snd (handle_payment_screenshot 7 paying_db))) 7 =
     Some \<lparr>user_id = Some 7, name = ''dan'', bet = Some ''tails'', status = Some ''waiting'',
           payment_attempts = 3\<rparr>"
  by (simp add: atomic_at_def payment_interrupted_def handle_payment_screenshot_def
        apply_writes_def payment_writes_def set_users_def example_defs truthy_def)

section \<open>Bet placement\<close>

text \<open>What holds of the two handlers of a bet, each on its own.\<close>

lemma bet_cmd_gate:
  "\<not> betting_open (settings_collection s) \<Longrightarrow> bet_cmd s = (RoundClosed, s)"
  "betting_open (settings_collection s) \<Longrightarrow> available_slots (settings_collection s) \<le> 0 \<Longrightarrow>
     bet_cmd s = (SlotsFull, s)"
  by (simp_all add: bet_cmd_def)

lemma handle_bet_choice_already:
  "find_one (users_collection s) uid = Some u \<Longrightarrow> bet u \<noteq> None \<Longrightarrow>
   handle_bet_choice uid c s = (AlreadyBet, s)"
  by (simp add: handle_bet_choice_def)

lemma handle_bet_choice_records:
  "find_one (users_collection s) uid = Some u \<Longrightarrow> bet u = None \<Longrightarrow>
   c = ''heads'' \<or> c = ''tails'' \<Longrightarrow>
   fst (handle_bet_choice uid c s) = PaymentQR c \<and>
   find_one (users_collection (snd (handle_bet_choice uid c s))) uid = Some (u\<lparr>bet := Some c\<rparr>) \<and>
   settings_collection (snd (handle_bet_choice uid c s)) = settings_collection s"
  by (auto simp: handle_bet_choice_def set_users_def find_one_update_one)

text \<open>
  C4 fails on the code. The closed-round and full-slots checks are made by the \<open>/bet\<close>
  command only; the handler of the keyboard press, which records the bet, makes neither.
  A registered user is shown the keyboard while betting is open; the operator closes
  betting and sets the slots to 0; the user presses heads: the bet is recorded.
\<close>

theorem bet_recorded_after_close:
  "fst (step 1 (Bet 7) (run 1 [Start 7 ''ann'', OpenBetting 1] init_db)) = ChooseSide \<and>
   \<not> betting_open (settings_collection (run 1 stale_keyboard init_db)) \<and>
   available_slots (settings_collection (run 1 stale_keyboard init_db)) = 0 \<and>
   fst (step 1 (Bet 7) (run 1 stale_keyboard init_db)) = RoundClosed \<and>
   fst (step 1 (BetChoice 7 ''heads'') (run 1 stale_keyboard init_db)) = PaymentQR ''heads'' \<and>
   find_one (users_collection
      (snd (step 1 (BetChoice 7 ''heads'') (run 1 stale_keyboard init_db)))) 7 =
     Some \<lparr>user_id = Some 7, name = ''ann'', bet = Some ''heads'', status = None,
           payment_attempts = 0\<rparr>"
  by (simp add: stale_keyboard_def handler_defs init_db_def placeholder_def)

end
